theory Spec2Isabelle
  imports Main "HOL-Library.AList"
begin

section \<open>Values shared by the token service and the database layer\<close>

text \<open>
  Python values, as far as the service handles them: claims of a token, bind values of a
  statement, columns of a row. A Python \<open>dict\<close> with string keys is an association list
  in insertion order; \<open>map_of\<close> is \<open>dict.get\<close> and \<open>AList.update\<close> is
  \<open>dict.update\<close> with one key (an existing key keeps its place, a new key goes to the
  end).
\<close>

datatype pyval =
    PyNone
  | PyBool bool
  | PyInt int
  | PyStr string
  | PyTuple "pyval list"
  | PyList "pyval list"

type_synonym pydict = "(string \<times> pyval) list"

type_synonym claims = pydict

text \<open>\<open>fastapi.HTTPException(status_code, detail)\<close>, raised by the token service and the routes.\<close>

datatype HTTPException = HTTPException (status_code: nat) (detail: string)

abbreviation HTTP_400_BAD_REQUEST :: nat where
  "HTTP_400_BAD_REQUEST \<equiv> 400"

abbreviation HTTP_401_UNAUTHORIZED :: nat where
  "HTTP_401_UNAUTHORIZED \<equiv> 401"

abbreviation HTTP_500_INTERNAL_SERVER_ERROR :: nat where
  "HTTP_500_INTERNAL_SERVER_ERROR \<equiv> 500"

section \<open>The token service: \<open>src/api/utils/jwt_handler.py\<close>\<close>

text \<open>
  The process-wide settings read from the environment at import time: \<open>SECRET_KEY\<close>,
  \<open>ALGORITHM\<close> (\<open>jwt_handler.py\<close>) and \<open>ACCESS_TOKEN_EXPIRE_MINUTES\<close>
  (\<open>routes/auth.py\<close>). They are taken as set.
\<close>

record settings =
  SECRET_KEY :: string
  ALGORITHM :: string
  ACCESS_TOKEN_EXPIRE_MINUTES :: int

text \<open>
  The \<open>jose.jwt\<close> library is outside the repository. It is modelled symbolically: a
  token string is either the signature of a payload under a key and an algorithm, or some
  other text. Decoding \<open>jwt.decode(token, key, algorithms=[...])\<close> raises \<open>JWTError\<close>
  for other text, for a signature made with another key or with an algorithm that is not
  allowed, and for an \<open>exp\<close> claim that is not an integer or lies before the current
  instant; otherwise it returns the payload. The library's checks of the other registered
  claims (\<open>nbf\<close>, \<open>iat\<close>, \<open>aud\<close>, \<open>iss\<close>, \<open>jti\<close>, and that \<open>sub\<close> is a
  string) are left out: of these the service issues \<open>sub\<close> only, set to a username.
  Instants and durations are integers, in seconds.
\<close>

datatype token = Signed claims string string | Opaque string

datatype jose_exc = JWTError

definition jwt_encode :: "claims \<Rightarrow> string \<Rightarrow> string \<Rightarrow> token" where
  "jwt_encode payload key algorithm = Signed payload key algorithm"

fun jwt_decode :: "int \<Rightarrow> token \<Rightarrow> string \<Rightarrow> string list \<Rightarrow> jose_exc + claims" where
  "jwt_decode now (Opaque s) key algorithms = Inl JWTError"
| "jwt_decode now (Signed payload k a) key algorithms =
     (if k \<noteq> key \<or> a \<notin> set algorithms then Inl JWTError
      else (case map_of payload ''exp'' of
              None \<Rightarrow> Inr payload
            | Some (PyInt e) \<Rightarrow> if e < now then Inl JWTError else Inr payload
            | Some _ \<Rightarrow> Inl JWTError))"

text \<open>
  \<open>expires_delta or timedelta(...)\<close>: Python's \<open>or\<close> takes the default when the
  argument is \<open>None\<close> and also when it is the zero duration, which is falsy.
\<close>

definition delta_or :: "int option \<Rightarrow> int \<Rightarrow> int" where
  "delta_or expires_delta dflt =
     (case expires_delta of None \<Rightarrow> dflt | Some d \<Rightarrow> if d = 0 then dflt else d)"

abbreviation minutes :: "int \<Rightarrow> int" where
  "minutes m \<equiv> 60 * m"

abbreviation days :: "int \<Rightarrow> int" where
  "days d \<equiv> 86400 * d"

text \<open>\<open>now\<close> is the value of \<open>datetime.utcnow()\<close> at the call.\<close>

definition create_access_token :: "settings \<Rightarrow> int \<Rightarrow> claims \<Rightarrow> int option \<Rightarrow> token" where
  "create_access_token cfg now data expires_delta =
     (let to_encode = data;
          expire = now + delta_or expires_delta (minutes 15);
          to_encode = AList.update ''exp'' (PyInt expire) to_encode
      in jwt_encode to_encode (SECRET_KEY cfg) (ALGORITHM cfg))"

definition decode_token :: "settings \<Rightarrow> int \<Rightarrow> token \<Rightarrow> claims option" where
  "decode_token cfg now tok =
     (case jwt_decode now tok (SECRET_KEY cfg) [ALGORITHM cfg] of
        Inr payload \<Rightarrow> Some payload
      | Inl JWTError \<Rightarrow> None)"

definition get_current_user :: "settings \<Rightarrow> int \<Rightarrow> token \<Rightarrow> HTTPException + claims" where
  "get_current_user cfg now tok =
     (case decode_token cfg now tok of
        None \<Rightarrow> Inl (HTTPException HTTP_401_UNAUTHORIZED ''Invalid authentication credentials'')
      | Some payload \<Rightarrow>
          (if map_of payload ''type'' \<noteq> Some (PyStr ''access'')
           then Inl (HTTPException HTTP_401_UNAUTHORIZED ''Invalid authentication credentials'')
           else (case map_of payload ''sub'' of
                   None \<Rightarrow> Inl (HTTPException HTTP_401_UNAUTHORIZED
                                  ''Invalid authentication credentials'')
                 | Some sub \<Rightarrow> Inr [(''username'', sub)])))"

definition create_refresh_token :: "settings \<Rightarrow> int \<Rightarrow> claims \<Rightarrow> int option \<Rightarrow> token" where
  "create_refresh_token cfg now data expires_delta =
     (let to_encode = data;
          to_encode = AList.update ''type'' (PyStr ''refresh'') to_encode;
          expire = now + delta_or expires_delta (days 7);
          to_encode = AList.update ''exp'' (PyInt expire) to_encode
      in jwt_encode to_encode (SECRET_KEY cfg) (ALGORITHM cfg))"

text \<open>
  The \<open>HTTPException\<close>s raised inside the \<open>try\<close> are not \<open>JWTError\<close>s, so the handler
  lets them through.
\<close>

definition verify_refresh_token :: "settings \<Rightarrow> int \<Rightarrow> token \<Rightarrow> HTTPException + claims" where
  "verify_refresh_token cfg now tok =
     (case jwt_decode now tok (SECRET_KEY cfg) [ALGORITHM cfg] of
        Inl JWTError \<Rightarrow>
          Inl (HTTPException HTTP_401_UNAUTHORIZED ''Invalid or expired refresh token'')
      | Inr payload \<Rightarrow>
          (if map_of payload ''type'' \<noteq> Some (PyStr ''refresh'')
           then Inl (HTTPException HTTP_401_UNAUTHORIZED ''Invalid token type'')
           else if map_of payload ''sub'' = None
           then Inl (HTTPException HTTP_401_UNAUTHORIZED ''Invalid token payload'')
           else Inr payload))"

text \<open>The payload a signed token carries, whoever signed it.\<close>

fun payload_of :: "token \<Rightarrow> claims" where
  "payload_of (Signed payload k a) = payload"
| "payload_of (Opaque s) = []"

section \<open>Strings\<close>

text \<open>
  The string methods the database layer uses, on ASCII text: \<open>str.upper\<close>,
  \<open>str.lower\<close>, \<open>str.strip\<close> (which removes the characters that \<open>str.isspace\<close>
  accepts from both ends), \<open>str.startswith\<close>, the substring test \<open>sub in s\<close>, and
  \<open>str(n)\<close> for a natural number, as the f-string in \<open>create_user\<close> formats it.
\<close>

abbreviation ascii_lowercase :: string where
  "ascii_lowercase \<equiv> ''abcdefghijklmnopqrstuvwxyz''"

abbreviation ascii_uppercase :: string where
  "ascii_uppercase \<equiv> ''ABCDEFGHIJKLMNOPQRSTUVWXYZ''"

definition upper_char :: "char \<Rightarrow> char" where
  "upper_char c = (case map_of (zip ascii_lowercase ascii_uppercase) c of Some u \<Rightarrow> u | None \<Rightarrow> c)"

definition lower_char :: "char \<Rightarrow> char" where
  "lower_char c = (case map_of (zip ascii_uppercase ascii_lowercase) c of Some l \<Rightarrow> l | None \<Rightarrow> c)"

definition upper :: "string \<Rightarrow> string" where
  "upper s = map upper_char s"

definition lower :: "string \<Rightarrow> string" where
  "lower s = map lower_char s"

definition isspace :: "char \<Rightarrow> bool" where
  "isspace c = (c \<in> set [CHR 0x09, CHR 0x0A, CHR 0x0B, CHR 0x0C, CHR 0x0D,
                           CHR 0x1C, CHR 0x1D, CHR 0x1E, CHR 0x1F, CHR '' ''])"

definition strip :: "string \<Rightarrow> string" where
  "strip s = rev (dropWhile isspace (rev (dropWhile isspace s)))"

definition startswith :: "string \<Rightarrow> string \<Rightarrow> bool" where
  "startswith s p = (take (length p) s = p)"

fun contains :: "string \<Rightarrow> string \<Rightarrow> bool" where
  "contains [] sub = (sub = [])"
| "contains (c # cs) sub = (startswith (c # cs) sub \<or> contains cs sub)"

abbreviation digits :: string where
  "digits \<equiv> ''0123456789''"

fun str_nat :: "nat \<Rightarrow> string" where
  "str_nat n = (if n < 10 then [digits ! n] else str_nat (n div 10) @ [digits ! (n mod 10)])"

declare str_nat.simps [simp del]

section \<open>The database access layer: \<open>src/utils/database_manager.py\<close>\<close>

text \<open>
  The \<open>sqlite3\<close> driver is outside the repository. What the layer sees of it is: one
  statement (or one batch) run on a fresh connection to the file at \<open>db_path\<close> and
  committed, which either raises or leaves a cursor and a new content of the store. The
  driver is a parameter of every operation; \<open>'w\<close> is the content of the store. An
  exception of the driver is one of the classes the layer's handlers tell apart, with its
  message \<open>str(e)\<close>: \<open>sqlite3.IntegrityError\<close>, \<open>sqlite3.OperationalError\<close>, any other
  \<open>sqlite3.DatabaseError\<close>, and any other \<open>Exception\<close>.
\<close>

datatype sqlite_exc =
    IntegrityError string
  | OperationalError string
  | OtherDatabaseError string
  | OtherException string

type_synonym row = pydict

record Cursor =
  fetched :: "row list"
  cursor_lastrowid :: "int option"
  cursor_rowcount :: int

record 'w sqlite3 =
  execute :: "string \<Rightarrow> string \<Rightarrow> pyval \<Rightarrow> 'w \<Rightarrow> sqlite_exc + (Cursor \<times> 'w)"
  executemany :: "string \<Rightarrow> string \<Rightarrow> pyval list \<Rightarrow> 'w \<Rightarrow> sqlite_exc + (int \<times> 'w)"

text \<open>The layer's own exception, \<open>class DatabaseError(Exception)\<close>.\<close>

datatype DatabaseError = DatabaseError string

text \<open>
  A \<open>DatabaseManager\<close> object. \<open>connection\<close> is \<open>None\<close> while the object has no
  attribute of that name.
\<close>

record DatabaseManager =
  db_path :: string
  connection :: "unit option"

datatype py_exc = AttributeError string

text \<open>\<open>DatabaseManager.__init__\<close>: the only assignment is to \<open>self.db_path\<close>.\<close>

definition DatabaseManager_init :: "string \<Rightarrow> DatabaseManager" where
  "DatabaseManager_init path = \<lparr>db_path = path, connection = None\<rparr>"

text \<open>The local class \<open>CursorResult\<close> of \<open>_execute\<close>.\<close>

record CursorResult =
  private_rows :: "row list option"
  lastrowid :: "int option"
  rowcount :: int

definition fetchall :: "CursorResult \<Rightarrow> row list" where
  "fetchall cr = (case private_rows cr of None \<Rightarrow> [] | Some rs \<Rightarrow> rs)"

text \<open>The \<open>except\<close> clauses of \<open>_execute\<close>, in their order.\<close>

fun execute_error :: "sqlite_exc \<Rightarrow> DatabaseError" where
  "execute_error (IntegrityError e) = DatabaseError (''Constraint violation: '' @ e)"
| "execute_error (OperationalError e) =
     (let error_msg = lower e
      in if contains error_msg ''locked''
         then DatabaseError ''Database is locked - try again later''
         else if contains error_msg ''no such table''
         then DatabaseError (''Table does not exist: '' @ e)
         else if contains error_msg ''syntax error''
         then DatabaseError (''SQL syntax error: '' @ e)
         else DatabaseError (''Operational error: '' @ e))"
| "execute_error (OtherDatabaseError e) = DatabaseError (''Database error: '' @ e)"
| "execute_error (OtherException e) =
     DatabaseError (''Unexpected error during execution: '' @ e)"

text \<open>\<open>DatabaseManager._execute\<close>.\<close>

definition private_execute ::
  "'w sqlite3 \<Rightarrow> DatabaseManager \<Rightarrow> string \<Rightarrow> pyval \<Rightarrow> 'w \<Rightarrow> DatabaseError + (CursorResult \<times> 'w)"
where
  "private_execute sq self query vals w =
     (case execute sq (db_path self) query vals w of
        Inl e \<Rightarrow> Inl (execute_error e)
      | Inr (cursor, w') \<Rightarrow>
          (let result_cursor =
                 (if startswith (upper (strip query)) ''SELECT''
                  then Some (fetched cursor) else None)
           in Inr (\<lparr>private_rows = result_cursor,
                     lastrowid = cursor_lastrowid cursor,
                     rowcount = cursor_rowcount cursor\<rparr>, w')))"

text \<open>The \<open>except\<close> clauses of \<open>insert_many\<close>.\<close>

fun insert_many_error :: "sqlite_exc \<Rightarrow> DatabaseError" where
  "insert_many_error (IntegrityError e) = DatabaseError (''Constraint violation: '' @ e)"
| "insert_many_error (OperationalError e) =
     (let error_msg = lower e
      in if contains error_msg ''locked''
         then DatabaseError ''Database is locked - try again later''
         else if contains error_msg ''no such table''
         then DatabaseError (''Table does not exist: '' @ e)
         else if contains error_msg ''syntax error''
         then DatabaseError (''SQL syntax error: '' @ e)
         else DatabaseError (''Database operation failed: '' @ e))"
| "insert_many_error (OtherDatabaseError e) = DatabaseError (''Database error: '' @ e)"
| "insert_many_error (OtherException e) =
     DatabaseError (''Unexpected error during batch insert: '' @ e)"

fun is_tuple :: "pyval \<Rightarrow> bool" where
  "is_tuple (PyTuple xs) = True"
| "is_tuple v = False"

text \<open>
  \<open>insert_many\<close>: the statement-kind check, then
  \<open>isinstance(values_list, list) and all(isinstance(item, tuple) ...)\<close>, then
  \<open>executemany\<close> on the store.
\<close>

definition insert_many ::
  "'w sqlite3 \<Rightarrow> DatabaseManager \<Rightarrow> string \<Rightarrow> pyval \<Rightarrow> 'w \<Rightarrow> DatabaseError + (int \<times> 'w)"
where
  "insert_many sq self query values_list w =
     (if \<not> startswith (upper (strip query)) ''INSERT''
      then Inl (DatabaseError ''Query must be an INSERT statement'')
      else (case values_list of
              PyList items \<Rightarrow>
                (if \<not> list_all is_tuple items
                 then Inl (DatabaseError ''Values must be a list of tuples'')
                 else (case executemany sq (db_path self) query items w of
                         Inl e \<Rightarrow> Inl (insert_many_error e)
                       | Inr (n, w') \<Rightarrow> Inr (n, w')))
            | _ \<Rightarrow> Inl (DatabaseError ''Values must be a list of tuples'')))"

text \<open>
  \<open>insert\<close>, \<open>update\<close> and \<open>delete\<close> carry the suffix \<open>_db\<close>: their names are
  taken by constants of the library.
\<close>

definition insert_db ::
  "'w sqlite3 \<Rightarrow> DatabaseManager \<Rightarrow> string \<Rightarrow> pyval \<Rightarrow> 'w \<Rightarrow> DatabaseError + (int \<times> 'w)"
where
  "insert_db sq self query vals w =
     (if \<not> startswith (upper (strip query)) ''INSERT''
      then Inl (DatabaseError ''Query must be an INSERT statement'')
      else (case private_execute sq self query vals w of
              Inl e \<Rightarrow> Inl e
            | Inr (cursor, w') \<Rightarrow>
                (case lastrowid cursor of
                   None \<Rightarrow> Inl (DatabaseError ''INSERT did not return a row ID'')
                 | Some row_id \<Rightarrow> Inr (row_id, w'))))"

text \<open>Python's truth value of an object, for \<open>values or ()\<close>.\<close>

fun truthy :: "pyval \<Rightarrow> bool" where
  "truthy PyNone = False"
| "truthy (PyBool b) = b"
| "truthy (PyInt i) = (i \<noteq> 0)"
| "truthy (PyStr s) = (s \<noteq> [])"
| "truthy (PyTuple xs) = (xs \<noteq> [])"
| "truthy (PyList xs) = (xs \<noteq> [])"

text \<open>\<open>select\<close>; the argument \<open>values\<close> is \<open>PyNone\<close> when the caller leaves it out.\<close>

definition select ::
  "'w sqlite3 \<Rightarrow> DatabaseManager \<Rightarrow> string \<Rightarrow> pyval \<Rightarrow> 'w \<Rightarrow> DatabaseError + (row list \<times> 'w)"
where
  "select sq self query vals w =
     (if \<not> startswith (upper (strip query)) ''SELECT''
      then Inl (DatabaseError ''Query must be a SELECT statement'')
      else (case private_execute sq self query (if truthy vals then vals else PyTuple []) w of
              Inl e \<Rightarrow> Inl e
            | Inr (cursor, w') \<Rightarrow> Inr (fetchall cursor, w')))"

definition update_db ::
  "'w sqlite3 \<Rightarrow> DatabaseManager \<Rightarrow> string \<Rightarrow> pyval \<Rightarrow> 'w \<Rightarrow> DatabaseError + (int \<times> 'w)"
where
  "update_db sq self query vals w =
     (if \<not> startswith (upper (strip query)) ''UPDATE''
      then Inl (DatabaseError ''Query must be an UPDATE statement'')
      else (case private_execute sq self query vals w of
              Inl e \<Rightarrow> Inl e
            | Inr (cursor, w') \<Rightarrow> Inr (rowcount cursor, w')))"

definition delete_db ::
  "'w sqlite3 \<Rightarrow> DatabaseManager \<Rightarrow> string \<Rightarrow> pyval \<Rightarrow> 'w \<Rightarrow> DatabaseError + (int \<times> 'w)"
where
  "delete_db sq self query vals w =
     (if \<not> startswith (upper (strip query)) ''DELETE''
      then Inl (DatabaseError ''Query must be a DELETE statement'')
      else (case private_execute sq self query vals w of
              Inl e \<Rightarrow> Inl e
            | Inr (cursor, w') \<Rightarrow> Inr (rowcount cursor, w')))"

text \<open>
  \<open>close\<close>: \<open>self.connection.close()\<close> reads the attribute first, which raises
  \<open>AttributeError\<close> when the object has none.
\<close>

definition close :: "DatabaseManager \<Rightarrow> py_exc + unit" where
  "close self =
     (case connection self of
        None \<Rightarrow> Inl (AttributeError
                       ''DatabaseManager object has no attribute connection'')
      | Some c \<Rightarrow> Inr ())"

section \<open>The credential store: \<open>src/api/services/auth_service.py\<close>\<close>

text \<open>
  The password context \<open>pwd_context = CryptContext(schemes=["bcrypt"])\<close> of
  \<open>passlib\<close> is outside the repository and is a parameter: \<open>pwd_hash salt password\<close>
  is \<open>pwd_context.hash(password)\<close> with the salt it draws, and
  \<open>pwd_verify password hashed\<close> is \<open>pwd_context.verify(password, hashed)\<close>; \<open>None\<close>
  stands for a raised exception.
\<close>

record CryptContext =
  pwd_hash :: "string \<Rightarrow> string \<Rightarrow> string option"
  pwd_verify :: "string \<Rightarrow> pyval \<Rightarrow> bool option"

definition verify_password :: "CryptContext \<Rightarrow> string \<Rightarrow> pyval \<Rightarrow> bool" where
  "verify_password pwd_context plain_password hashed_password =
     (case pwd_verify pwd_context plain_password hashed_password of
        Some password_match \<Rightarrow> password_match
      | None \<Rightarrow> False)"

abbreviation select_user_sql :: string where
  "select_user_sql \<equiv> ''SELECT username, hashed_password FROM users WHERE username = ? LIMIT 1''"

abbreviation insert_user_sql :: string where
  "insert_user_sql \<equiv> ''INSERT INTO users (username, hashed_password) VALUES (?, ?)''"

text \<open>
  \<open>get_user\<close>. Every exception inside the \<open>try\<close> ends in \<open>return None\<close>: the
  \<open>DatabaseError\<close> of \<open>manager.select\<close> and the \<open>KeyError\<close> of a row without
  one of the two columns.
\<close>

definition get_user ::
  "'w sqlite3 \<Rightarrow> DatabaseManager \<Rightarrow> string \<Rightarrow> 'w \<Rightarrow> pydict option \<times> 'w"
where
  "get_user sq manager username w =
     (case select sq manager select_user_sql (PyTuple [PyStr username]) w of
        Inl e \<Rightarrow> (None, w)
      | Inr (rows, w') \<Rightarrow>
          (case rows of
             [] \<Rightarrow> (None, w')
           | r # rest \<Rightarrow>
               (case (map_of r ''username'', map_of r ''hashed_password'') of
                  (Some u, Some h) \<Rightarrow> (Some [(''username'', u), (''hashed_password'', h)], w')
                | _ \<Rightarrow> (None, w'))))"

text \<open>
  The loop of \<open>create_user\<close>:
  \<^verbatim>\<open>while get_user(f"{base_username}{suffix}") is not None: suffix += 1\<close>.
  It returns the first suffix, from the given one upwards, whose name \<open>get_user\<close> does not
  find; \<open>None\<close> is the loop that never ends.
\<close>

partial_function (option) probe_suffix ::
  "'w sqlite3 \<Rightarrow> DatabaseManager \<Rightarrow> string \<Rightarrow> nat \<Rightarrow> 'w \<Rightarrow> (nat \<times> 'w) option"
where
  "probe_suffix sq manager base_username suffix w =
     (case get_user sq manager (base_username @ str_nat suffix) w of
        (None, w') \<Rightarrow> Some (suffix, w')
      | (Some u, w') \<Rightarrow> probe_suffix sq manager base_username (suffix + 1) w')"

declare probe_suffix.simps [code]

text \<open>
  The \<open>if existing_user:\<close> block of \<open>create_user\<close>: \<open>Inl ()\<close> is the early
  \<open>return None\<close> (the same password, or an exception on the way, which the handler of
  \<open>create_user\<close> turns into \<open>return None\<close>), \<open>Inr name\<close> the username to insert
  under. The dictionary \<open>get_user\<close> returns has two keys, so it is truthy.
\<close>

definition resolve_username ::
  "CryptContext \<Rightarrow> 'w sqlite3 \<Rightarrow> DatabaseManager \<Rightarrow> string \<Rightarrow> string \<Rightarrow> pydict option \<Rightarrow> 'w
     \<Rightarrow> ((unit + string) \<times> 'w) option"
where
  "resolve_username pwd_context sq manager username password existing_user w =
     (case existing_user of
        None \<Rightarrow> Some (Inr username, w)
      | Some user \<Rightarrow>
          (case map_of user ''hashed_password'' of
             None \<Rightarrow> Some (Inl (), w)
           | Some h \<Rightarrow>
               (case pwd_verify pwd_context password h of
                  None \<Rightarrow> Some (Inl (), w)
                | Some True \<Rightarrow> Some (Inl (), w)
                | Some False \<Rightarrow>
                    (case probe_suffix sq manager username 1 w of
                       None \<Rightarrow> None
                     | Some (suffix, w') \<Rightarrow> Some (Inr (username @ str_nat suffix), w')))))"

text \<open>
  \<open>create_user\<close>. \<open>salt\<close> is the salt \<open>pwd_context.hash\<close> draws at this call. The
  outer \<open>None\<close> is a call that does not return; the inner one is \<open>return None\<close>.
\<close>

definition create_user ::
  "CryptContext \<Rightarrow> 'w sqlite3 \<Rightarrow> DatabaseManager \<Rightarrow> string \<Rightarrow> string \<Rightarrow> string \<Rightarrow> 'w
     \<Rightarrow> (pydict option \<times> 'w) option"
where
  "create_user pwd_context sq manager salt username password w =
     (case get_user sq manager username w of
        (existing_user, w1) \<Rightarrow>
          (case pwd_hash pwd_context salt password of
             None \<Rightarrow> Some (None, w1)
           | Some hashed \<Rightarrow>
               (case resolve_username pwd_context sq manager username password existing_user w1 of
                  None \<Rightarrow> None
                | Some (Inl u, w2) \<Rightarrow> Some (None, w2)
                | Some (Inr username', w2) \<Rightarrow>
                    (case insert_db sq manager insert_user_sql
                            (PyTuple [PyStr username', PyStr hashed]) w2 of
                       Inl e \<Rightarrow> Some (None, w2)
                     | Inr (inserted_id, w3) \<Rightarrow>
                         Some (Some [(''id'', PyInt inserted_id), (''username'', PyStr username')],
                               w3)))))"

text \<open>
  \<open>authenticate_user\<close>. The two \<open>HTTPException\<close>s raised inside the \<open>try\<close> are
  re-raised; any other exception (here the \<open>KeyError\<close> of \<open>user["hashed_password"]\<close>)
  becomes status 500.
\<close>

definition authenticate_user ::
  "CryptContext \<Rightarrow> 'w sqlite3 \<Rightarrow> DatabaseManager \<Rightarrow> string \<Rightarrow> string \<Rightarrow> 'w
     \<Rightarrow> (HTTPException + pydict) \<times> 'w"
where
  "authenticate_user pwd_context sq manager username password w =
     (case get_user sq manager username w of
        (None, w') \<Rightarrow>
          (Inl (HTTPException HTTP_401_UNAUTHORIZED ''Invalid username or password''), w')
      | (Some user, w') \<Rightarrow>
          (case map_of user ''hashed_password'' of
             None \<Rightarrow>
               (Inl (HTTPException HTTP_500_INTERNAL_SERVER_ERROR
                       ''Internal server error during authentication''), w')
           | Some h \<Rightarrow>
               (if \<not> verify_password pwd_context password h
                then (Inl (HTTPException HTTP_401_UNAUTHORIZED
                             ''Invalid username or password''), w')
                else (Inr [(''username'', PyStr username)], w'))))"

section \<open>The routes: \<open>src/api/routes/auth.py\<close>\<close>

record TokenResponse =
  access_token :: token
  refresh_token :: token
  token_type :: string

text \<open>\<open>TokenResponse(access_token=..., refresh_token=...)\<close>, with the default \<open>token_type\<close>.\<close>

definition mk_TokenResponse :: "token \<Rightarrow> token \<Rightarrow> TokenResponse" where
  "mk_TokenResponse a r = \<lparr>access_token = a, refresh_token = r, token_type = ''bearer''\<rparr>"

text \<open>
  What \<open>register\<close> and \<open>login\<close> do with the user they got: an access token, and a
  refresh token that is also made by \<open>create_access_token\<close>, with \<open>type\<close> given as
  \<open>"refresh"\<close> and seven days to live. A user without the key \<open>username\<close> is a
  \<open>KeyError\<close>, which the framework answers with status 500.
\<close>

definition token_pair :: "settings \<Rightarrow> int \<Rightarrow> pydict \<Rightarrow> HTTPException + TokenResponse" where
  "token_pair cfg now user =
     (case map_of user ''username'' of
        None \<Rightarrow> Inl (HTTPException HTTP_500_INTERNAL_SERVER_ERROR ''Internal Server Error'')
      | Some name \<Rightarrow>
          (let access_token =
                 create_access_token cfg now [(''sub'', name), (''type'', PyStr ''access'')]
                   (Some (minutes (ACCESS_TOKEN_EXPIRE_MINUTES cfg)));
               refresh_token =
                 create_access_token cfg now [(''sub'', name), (''type'', PyStr ''refresh'')]
                   (Some (days 7))
           in Inr (mk_TokenResponse access_token refresh_token)))"

text \<open>\<open>register\<close>; the outer \<open>None\<close> is a request that is never answered.\<close>

definition register ::
  "settings \<Rightarrow> CryptContext \<Rightarrow> 'w sqlite3 \<Rightarrow> DatabaseManager \<Rightarrow> int \<Rightarrow> string \<Rightarrow> string \<Rightarrow> string
     \<Rightarrow> 'w \<Rightarrow> ((HTTPException + TokenResponse) \<times> 'w) option"
where
  "register cfg pwd_context sq manager now salt username password w =
     (case create_user pwd_context sq manager salt username password w of
        None \<Rightarrow> None
      | Some (None, w') \<Rightarrow>
          Some (Inl (HTTPException HTTP_400_BAD_REQUEST ''User already exists''), w')
      | Some (Some user, w') \<Rightarrow> Some (token_pair cfg now user, w'))"

text \<open>
  \<open>login\<close>; \<open>authenticate_user\<close> returns a dictionary with one key or raises, so the
  test \<open>if not user\<close> never holds.
\<close>

definition login ::
  "settings \<Rightarrow> CryptContext \<Rightarrow> 'w sqlite3 \<Rightarrow> DatabaseManager \<Rightarrow> int \<Rightarrow> string \<Rightarrow> string \<Rightarrow> 'w
     \<Rightarrow> (HTTPException + TokenResponse) \<times> 'w"
where
  "login cfg pwd_context sq manager now username password w =
     (case authenticate_user pwd_context sq manager username password w of
        (Inl e, w') \<Rightarrow> (Inl e, w')
      | (Inr user, w') \<Rightarrow>
          (if user = []
           then (Inl (HTTPException HTTP_401_UNAUTHORIZED ''Invalid username or password''), w')
           else (token_pair cfg now user, w')))"

text \<open>
  The route function \<open>refresh_token\<close> (its name is taken by the field of the response).
  The lookup \<open>payload["sub"]\<close> raises \<open>KeyError\<close> on a missing key, which the framework
  answers with status 500.
\<close>

definition refresh_token_route :: "settings \<Rightarrow> int \<Rightarrow> token \<Rightarrow> HTTPException + TokenResponse" where
  "refresh_token_route cfg now tok =
     (case verify_refresh_token cfg now tok of
        Inl e \<Rightarrow> Inl e
      | Inr payload \<Rightarrow>
          (case map_of payload ''sub'' of
             None \<Rightarrow> Inl (HTTPException HTTP_500_INTERNAL_SERVER_ERROR ''Internal Server Error'')
           | Some username \<Rightarrow>
               (let new_access_token =
                      create_access_token cfg now
                        [(''sub'', username), (''type'', PyStr ''access'')]
                        (Some (minutes (ACCESS_TOKEN_EXPIRE_MINUTES cfg)))
                in Inr (mk_TokenResponse new_access_token tok))))"

section \<open>Stores and contexts to run the service on\<close>

text \<open>
  Modelled from the spec: the table \<open>users\<close> and its schema are not created anywhere in
  the sources. A user record has an integer \<open>id\<close> that the store assigns on insert, a
  \<open>username\<close> and a \<open>hashed_password\<close>; the store enforces no uniqueness of
  usernames. The store below holds the rows of that table in insertion order and runs the
  two statements the credential store issues, as SQLite does: the lookup returns the first
  row with the bound username (\<open>LIMIT 1\<close>) and changes nothing; the insert appends a row
  under the next row id. It rejects every other statement and every other shape of bind
  values.
\<close>

type_synonym users_table = "(int \<times> string \<times> string) list"

definition row_username :: "int \<times> string \<times> string \<Rightarrow> string" where
  "row_username r = fst (snd r)"

definition usernames :: "users_table \<Rightarrow> string set" where
  "usernames tbl = set (map row_username tbl)"

definition user_row :: "int \<times> string \<times> string \<Rightarrow> row" where
  "user_row r = [(''username'', PyStr (fst (snd r))), (''hashed_password'', PyStr (snd (snd r)))]"

definition next_rowid :: "users_table \<Rightarrow> int" where
  "next_rowid tbl = fold max (map fst tbl) 0 + 1"

fun bind_one :: "pyval \<Rightarrow> string option" where
  "bind_one (PyTuple [PyStr u]) = Some u"
| "bind_one v = None"

fun bind_two :: "pyval \<Rightarrow> (string \<times> string) option" where
  "bind_two (PyTuple [PyStr u, PyStr h]) = Some (u, h)"
| "bind_two v = None"

text \<open>
  Modelled from the spec: the two statements of the credential store on the table
  \<open>users\<close>, whose schema the sources do not hold.
\<close>

definition users_execute ::
  "string \<Rightarrow> string \<Rightarrow> pyval \<Rightarrow> users_table \<Rightarrow> sqlite_exc + (Cursor \<times> users_table)"
where
  "users_execute path query vals tbl =
     (if query = select_user_sql then
        (case bind_one vals of
           None \<Rightarrow> Inl (OtherDatabaseError ''Incorrect number of bindings supplied'')
         | Some u \<Rightarrow>
             Inr (\<lparr>fetched = map user_row (take 1 (filter (\<lambda>r. row_username r = u) tbl)),
                   cursor_lastrowid = None, cursor_rowcount = - 1\<rparr>, tbl))
      else if query = insert_user_sql then
        (case bind_two vals of
           None \<Rightarrow> Inl (OtherDatabaseError ''Incorrect number of bindings supplied'')
         | Some (u, h) \<Rightarrow>
             Inr (\<lparr>fetched = [], cursor_lastrowid = Some (next_rowid tbl), cursor_rowcount = 1\<rparr>,
                  tbl @ [(next_rowid tbl, u, h)]))
      else Inl (OperationalError ''statement not supported''))"

definition users_sqlite :: "users_table sqlite3" where
  "users_sqlite =
     \<lparr>execute = users_execute,
      executemany = (\<lambda>path query items tbl. Inl (OperationalError ''statement not supported''))\<rparr>"

text \<open>A store whose file is locked: every statement raises \<open>sqlite3.OperationalError\<close>.\<close>

definition locked_sqlite :: "users_table sqlite3" where
  "locked_sqlite =
     \<lparr>execute = (\<lambda>path query vals tbl. Inl (OperationalError ''database is locked'')),
      executemany = (\<lambda>path query items tbl. Inl (OperationalError ''database is locked''))\<rparr>"

text \<open>
  A store that records the batches handed to \<open>executemany\<close>. As SQLite does, it counts
  the placeholders of the statement and raises \<open>sqlite3.ProgrammingError\<close> (a
  \<open>sqlite3.DatabaseError\<close>) when a tuple binds another number of values; the batch is
  then rolled back, and the record shows that it was handed over.
\<close>

type_synonym batch_log = "(string \<times> pyval list) list"

fun arity :: "pyval \<Rightarrow> nat" where
  "arity (PyTuple xs) = length xs"
| "arity v = 0"

definition placeholders :: "string \<Rightarrow> nat" where
  "placeholders query = length (filter (\<lambda>c. c = CHR ''?'') query)"

definition recording_sqlite :: "batch_log sqlite3" where
  "recording_sqlite =
     \<lparr>execute = (\<lambda>path query vals log. Inl (OperationalError ''statement not supported'')),
      executemany = (\<lambda>path query items log.
         if list_all (\<lambda>item. arity item = placeholders query) items
         then Inr (int (length items), log @ [(query, items)])
         else Inl (OtherDatabaseError ''Incorrect number of bindings supplied''))\<rparr>"

text \<open>
  A stand-in for the password context, to run examples: the hash is the salt, a dollar
  sign and the password in clear, which a real context never stores.
\<close>

definition plain_context :: CryptContext where
  "plain_context =
     \<lparr>pwd_hash = (\<lambda>salt password. Some (salt @ ''$'' @ password)),
      pwd_verify = (\<lambda>password hashed.
         case hashed of
           PyStr h \<Rightarrow> Some (drop 1 (dropWhile (\<lambda>c. c \<noteq> CHR ''$'') h) = password)
         | _ \<Rightarrow> None)\<rparr>"

definition example_settings :: settings where
  "example_settings =
     \<lparr>SECRET_KEY = ''k'', ALGORITHM = ''HS256'', ACCESS_TOKEN_EXPIRE_MINUTES = 30\<rparr>"

definition example_manager :: DatabaseManager where
  "example_manager = DatabaseManager_init ''db.sqlite''"

section \<open>Facts about the token service\<close>

lemma map_of_update_same: "map_of (AList.update k v al) k = Some v"
  by (simp add: update_conv')

lemma map_of_update_other: "k' \<noteq> k \<Longrightarrow> map_of (AList.update k v al) k' = map_of al k'"
  by (simp add: update_conv')

lemma jwt_decode_payload:
  "jwt_decode now tok key algs = Inr p \<Longrightarrow> p = payload_of tok"
  by (cases tok) (auto split: if_splits option.splits pyval.splits)

lemma payload_create_access_token:
  "map_of (payload_of (create_access_token cfg now data d)) k =
     (if k = ''exp'' then Some (PyInt (now + delta_or d (minutes 15))) else map_of data k)"
  by (simp add: create_access_token_def jwt_encode_def Let_def update_conv')


lemma jwt_decode_created_access:
  "jwt_decode now' (create_access_token cfg now data d) (SECRET_KEY cfg) [ALGORITHM cfg] =
     (if now + delta_or d (minutes 15) < now' then Inl JWTError
      else Inr (AList.update ''exp'' (PyInt (now + delta_or d (minutes 15))) data))"
  by (simp add: create_access_token_def jwt_encode_def Let_def update_conv')

lemma jwt_decode_created_refresh:
  "jwt_decode now' (create_refresh_token cfg now data d) (SECRET_KEY cfg) [ALGORITHM cfg] =
     (if now + delta_or d (days 7) < now' then Inl JWTError
      else Inr (AList.update ''exp'' (PyInt (now + delta_or d (days 7)))
                 (AList.update ''type'' (PyStr ''refresh'') data)))"
  by (simp add: create_refresh_token_def jwt_encode_def Let_def update_conv')

text \<open>
  Claim C1. A token issued with the claim \<open>type = "access"\<close> fails
  \<open>verify_refresh_token\<close> with status 401 at every instant (as an expired token once
  its lifetime is over, as a token of the wrong type before), and a token issued with
  \<open>type = "refresh"\<close>, by \<open>create_access_token\<close> as the routes do or by
  \<open>create_refresh_token\<close>, fails \<open>get_current_user\<close> with status 401. The other
  claims of the token are arbitrary, so nothing but the type claim decides.
\<close>

theorem token_kind_separation:
  "(map_of data ''type'' = Some (PyStr ''access'') \<longrightarrow>
      verify_refresh_token cfg now' (create_access_token cfg now data d) =
        Inl (HTTPException HTTP_401_UNAUTHORIZED
              (if now + delta_or d (minutes 15) < now' then ''Invalid or expired refresh token''
               else ''Invalid token type'')))
   \<and> (map_of data ''type'' = Some (PyStr ''refresh'') \<longrightarrow>
      get_current_user cfg now' (create_access_token cfg now data d) =
        Inl (HTTPException HTTP_401_UNAUTHORIZED ''Invalid authentication credentials''))
   \<and> get_current_user cfg now' (create_refresh_token cfg now data d) =
        Inl (HTTPException HTTP_401_UNAUTHORIZED ''Invalid authentication credentials'')"
  by (simp add: verify_refresh_token_def get_current_user_def decode_token_def
        jwt_decode_created_access jwt_decode_created_refresh update_conv')

text \<open>The theorem of C1 at the tokens the routes issue for \<open>alice\<close>, one minute later.\<close>

theorem token_kind_separation_witness:
  "map_of [(''sub'', PyStr ''alice''), (''type'', PyStr ''access'')] ''type'' = Some (PyStr ''access'')
   \<and> verify_refresh_token example_settings 60
        (create_access_token example_settings 0
           [(''sub'', PyStr ''alice''), (''type'', PyStr ''access'')] (Some 1800)) =
        Inl (HTTPException 401 ''Invalid token type'')
   \<and> map_of [(''sub'', PyStr ''alice''), (''type'', PyStr ''refresh'')] ''type'' = Some (PyStr ''refresh'')
   \<and> get_current_user example_settings 60
        (create_access_token example_settings 0
           [(''sub'', PyStr ''alice''), (''type'', PyStr ''refresh'')] (Some 604800)) =
        Inl (HTTPException 401 ''Invalid authentication credentials'')"
  using token_kind_separation [of "[(''sub'', PyStr ''alice''), (''type'', PyStr ''access'')]"
          example_settings 60 0 "Some 1800"]
        token_kind_separation [of "[(''sub'', PyStr ''alice''), (''type'', PyStr ''refresh'')]"
          example_settings 60 0 "Some 604800"]
  by (simp add: delta_or_def)



text \<open>
  Claim C5. When the presented token passes \<open>verify_refresh_token\<close>, the refresh route
  answers with a response whose refresh token is the presented token itself and whose
  access token carries \<open>type = "access"\<close> and the \<open>sub\<close> of the presented token;
  with a lifetime setting that is not negative, \<open>get_current_user\<close> accepts the new
  access token as that subject.
\<close>

theorem refresh_returns_same_token:
  assumes "verify_refresh_token cfg now tok = Inr payload"
  shows "\<exists>resp sub.
           refresh_token_route cfg now tok = Inr resp
         \<and> refresh_token resp = tok
         \<and> token_type resp = ''bearer''
         \<and> map_of (payload_of tok) ''sub'' = Some sub
         \<and> map_of (payload_of (access_token resp)) ''sub'' = Some sub
         \<and> map_of (payload_of (access_token resp)) ''type'' = Some (PyStr ''access'')
         \<and> (0 \<le> ACCESS_TOKEN_EXPIRE_MINUTES cfg \<longrightarrow>
              get_current_user cfg now (access_token resp) = Inr [(''username'', sub)])"
proof -
  from assms have dec: "jwt_decode now tok (SECRET_KEY cfg) [ALGORITHM cfg] = Inr payload"
    and sub: "map_of payload ''sub'' \<noteq> None"
    by (auto simp add: verify_refresh_token_def split: sum.splits jose_exc.splits if_splits)
  from dec have p: "payload = payload_of tok" by (rule jwt_decode_payload)
  from sub obtain s where s: "map_of payload ''sub'' = Some s" by auto
  let ?a = "create_access_token cfg now [(''sub'', s), (''type'', PyStr ''access'')]
              (Some (minutes (ACCESS_TOKEN_EXPIRE_MINUTES cfg)))"
  have route: "refresh_token_route cfg now tok = Inr (mk_TokenResponse ?a tok)"
    using assms s by (simp add: refresh_token_route_def Let_def)
  have nonneg: "0 \<le> ACCESS_TOKEN_EXPIRE_MINUTES cfg \<Longrightarrow>
      0 \<le> delta_or (Some (minutes (ACCESS_TOKEN_EXPIRE_MINUTES cfg))) (minutes 15)"
    by (simp add: delta_or_def)
  have user: "0 \<le> ACCESS_TOKEN_EXPIRE_MINUTES cfg \<Longrightarrow>
      get_current_user cfg now ?a = Inr [(''username'', s)]"
    using nonneg
    by (simp add: get_current_user_def decode_token_def jwt_decode_created_access update_conv')
  show ?thesis
    using route s p user
    by (simp add: mk_TokenResponse_def payload_create_access_token)
qed

text \<open>The theorem of C5 at the refresh token the routes issue for \<open>alice\<close>.\<close>

theorem refresh_returns_same_token_witness:
  "verify_refresh_token example_settings 60
      (create_access_token example_settings 0
         [(''sub'', PyStr ''alice''), (''type'', PyStr ''refresh'')] (Some (days 7))) =
     Inr [(''sub'', PyStr ''alice''), (''type'', PyStr ''refresh''), (''exp'', PyInt 604800)]
   \<and> (\<exists>resp.
        refresh_token_route example_settings 60
          (create_access_token example_settings 0
             [(''sub'', PyStr ''alice''), (''type'', PyStr ''refresh'')] (Some (days 7))) = Inr resp
      \<and> refresh_token resp =
          create_access_token example_settings 0
             [(''sub'', PyStr ''alice''), (''type'', PyStr ''refresh'')] (Some (days 7))
      \<and> map_of (payload_of (access_token resp)) ''sub'' = Some (PyStr ''alice'')
      \<and> get_current_user example_settings 60 (access_token resp) =
          Inr [(''username'', PyStr ''alice'')])"
proof -
  let ?tok = "create_access_token example_settings 0
         [(''sub'', PyStr ''alice''), (''type'', PyStr ''refresh'')] (Some (days 7))"
  have v: "verify_refresh_token example_settings 60 ?tok =
     Inr [(''sub'', PyStr ''alice''), (''type'', PyStr ''refresh''), (''exp'', PyInt 604800)]"
    by (simp add: verify_refresh_token_def jwt_decode_created_access delta_or_def)
  have sub: "map_of (payload_of ?tok) ''sub'' = Some (PyStr ''alice'')"
    by (simp add: payload_create_access_token)
  have pos: "0 \<le> ACCESS_TOKEN_EXPIRE_MINUTES example_settings"
    by (simp add: example_settings_def)
  from refresh_returns_same_token [OF v] sub pos v show ?thesis
    by auto
qed

section \<open>Facts about the database access layer\<close>

lemma update_is_not_select:
  "\<not> startswith (upper (strip ''UPDATE users SET username = ?'')) ''SELECT''"
  by (simp add: startswith_def upper_def strip_def isspace_def upper_char_def)

lemma select_user_sql_kind: "startswith (upper (strip select_user_sql)) ''SELECT''"
  by (simp add: startswith_def upper_def strip_def isspace_def upper_char_def)

lemma insert_user_sql_kind: "startswith (upper (strip insert_user_sql)) ''INSERT''"
  by (simp add: startswith_def upper_def strip_def isspace_def upper_char_def)

lemma insert_t_kind: "startswith (upper (strip ''INSERT INTO t (a) VALUES (?)'')) ''INSERT''"
  by (simp add: startswith_def upper_def strip_def isspace_def upper_char_def)

text \<open>
  Claim C10. \<open>close\<close> on a manager made by the initializer raises
  \<open>AttributeError\<close>, whatever the path: the initializer assigns \<open>db_path\<close> only.
  No operation of the layer assigns an attribute of the manager, which is why none of them
  returns a manager here; so the same holds after any of them.
\<close>

theorem close_always_fails:
  "close (DatabaseManager_init path) =
     Inl (AttributeError ''DatabaseManager object has no attribute connection'')"
  by (simp add: close_def DatabaseManager_init_def)

text \<open>
  Claim C8. A query whose leading verb is not SELECT, which the layer reads as: stripped
  and in upper case it does not start with \<open>SELECT\<close>, makes \<open>select\<close> fail with
  "Query must be a SELECT statement" for every driver and every store, so the outcome does
  not come from the store. A SELECT for which the store finds no row returns the empty
  list.
\<close>

theorem select_statement_kind:
  "(\<not> startswith (upper (strip query)) ''SELECT'' \<longrightarrow>
      select sq self query vals w = Inl (DatabaseError ''Query must be a SELECT statement''))
   \<and> (startswith (upper (strip query)) ''SELECT''
        \<and> execute sq (db_path self) query (if truthy vals then vals else PyTuple []) w =
            Inr (cursor, w')
        \<and> fetched cursor = [] \<longrightarrow>
      select sq self query vals w = Inr ([], w'))"
  by (simp add: select_def private_execute_def fetchall_def Let_def)

text \<open>The theorem of C8 at an UPDATE statement and at a lookup of a user who is not stored.\<close>

theorem select_statement_kind_witness:
  "\<not> startswith (upper (strip ''UPDATE users SET username = ?'')) ''SELECT''
   \<and> select users_sqlite example_manager ''UPDATE users SET username = ?''
         (PyTuple [PyStr ''bob'']) [(1, ''alice'', ''s$p1'')] =
       Inl (DatabaseError ''Query must be a SELECT statement'')
   \<and> startswith (upper (strip select_user_sql)) ''SELECT''
   \<and> select users_sqlite example_manager select_user_sql
         (PyTuple [PyStr ''bob'']) [(1, ''alice'', ''s$p1'')] =
       Inr ([], [(1, ''alice'', ''s$p1'')])"
proof -
  have ex: "execute users_sqlite (db_path example_manager) select_user_sql
              (if truthy (PyTuple [PyStr ''bob'']) then PyTuple [PyStr ''bob''] else PyTuple [])
              [(1, ''alice'', ''s$p1'')] =
            Inr (\<lparr>fetched = [], cursor_lastrowid = None, cursor_rowcount = - 1\<rparr>,
                 [(1, ''alice'', ''s$p1'')])"
    by (simp add: users_sqlite_def users_execute_def row_username_def)
  show ?thesis
    using select_statement_kind [of "''UPDATE users SET username = ?''" users_sqlite
            example_manager "PyTuple [PyStr ''bob'']" "[(1, ''alice'', ''s$p1'')]"]
          select_statement_kind [of select_user_sql users_sqlite
            example_manager "PyTuple [PyStr ''bob'']" "[(1, ''alice'', ''s$p1'')]"
            "\<lparr>fetched = [], cursor_lastrowid = None, cursor_rowcount = - 1\<rparr>"
            "[(1, ''alice'', ''s$p1'')]"]
          update_is_not_select select_user_sql_kind ex
    by simp
qed

text \<open>
  Claim C7, as stated, fails: a list of two tuples of different arities passes the checks
  of \<open>insert_many\<close> and reaches the store, whose own complaint comes back as
  "Database error: ..." and not as "Values must be a list of tuples".
\<close>

theorem insert_many_arity_counterexample:
  "startswith (upper (strip ''INSERT INTO t (a) VALUES (?)'')) ''INSERT''
   \<and> arity (PyTuple [PyInt 1]) \<noteq> arity (PyTuple [PyInt 2, PyInt 3])
   \<and> insert_many recording_sqlite example_manager ''INSERT INTO t (a) VALUES (?)''
         (PyList [PyTuple [PyInt 1], PyTuple [PyInt 2, PyInt 3]]) [] =
       Inl (DatabaseError ''Database error: Incorrect number of bindings supplied'')
   \<and> insert_many recording_sqlite example_manager ''INSERT INTO t (a) VALUES (?)''
         (PyList [PyTuple [PyInt 1], PyTuple [PyInt 2, PyInt 3]]) [] \<noteq>
       Inl (DatabaseError ''Values must be a list of tuples'')"
  by (simp add: insert_many_def insert_t_kind recording_sqlite_def placeholders_def)

text \<open>
  Claim C7, amended. For an INSERT statement: when the values are not a list, or an
  element of the list is not a tuple, \<open>insert_many\<close> fails with "Values must be a list
  of tuples" for every driver and store; a list of tuples, of whatever arities, is handed
  to \<open>executemany\<close> and the outcome is the store's.
\<close>

theorem insert_many_shape:
  assumes "startswith (upper (strip query)) ''INSERT''"
  shows "((\<forall>items. values_list = PyList items \<longrightarrow> \<not> list_all is_tuple items) \<longrightarrow>
            insert_many sq self query values_list w =
              Inl (DatabaseError ''Values must be a list of tuples''))
       \<and> (\<forall>items. values_list = PyList items \<and> list_all is_tuple items \<longrightarrow>
            insert_many sq self query values_list w =
              (case executemany sq (db_path self) query items w of
                 Inl e \<Rightarrow> Inl (insert_many_error e)
               | Inr (n, w') \<Rightarrow> Inr (n, w')))"
  using assms by (cases values_list) (simp_all add: insert_many_def)

text \<open>The theorem of C7 at a list with a non-tuple, at a tuple of tuples and at a well-shaped batch.\<close>

theorem insert_many_shape_witness:
  "startswith (upper (strip ''INSERT INTO t (a) VALUES (?)'')) ''INSERT''
   \<and> insert_many recording_sqlite example_manager ''INSERT INTO t (a) VALUES (?)''
         (PyList [PyTuple [PyInt 1], PyInt 2]) [] =
       Inl (DatabaseError ''Values must be a list of tuples'')
   \<and> insert_many recording_sqlite example_manager ''INSERT INTO t (a) VALUES (?)''
         (PyTuple [PyTuple [PyInt 1]]) [] =
       Inl (DatabaseError ''Values must be a list of tuples'')
   \<and> insert_many recording_sqlite example_manager ''INSERT INTO t (a) VALUES (?)''
         (PyList [PyTuple [PyInt 1], PyTuple [PyInt 2]]) [] =
       Inr (2, [(''INSERT INTO t (a) VALUES (?)'', [PyTuple [PyInt 1], PyTuple [PyInt 2]])])"
  using insert_many_shape [OF insert_t_kind, of "PyList [PyTuple [PyInt 1], PyInt 2]"
          recording_sqlite example_manager "[]"]
        insert_many_shape [OF insert_t_kind, of "PyTuple [PyTuple [PyInt 1]]"
          recording_sqlite example_manager "[]"]
        insert_many_shape [OF insert_t_kind, of "PyList [PyTuple [PyInt 1], PyTuple [PyInt 2]]"
          recording_sqlite example_manager "[]"]
        insert_t_kind
  by (simp add: recording_sqlite_def placeholders_def)

section \<open>Facts about the credential store and the routes\<close>

lemma get_user_select_fails:
  assumes "execute sq (db_path manager) select_user_sql (PyTuple [PyStr username]) w = Inl e"
  shows "get_user sq manager username w = (None, w)"
  using assms by (simp add: get_user_def select_def private_execute_def)

lemma authenticate_user_unknown:
  assumes "get_user sq manager username w = (None, w')"
  shows "authenticate_user pwd_context sq manager username password w =
           (Inl (HTTPException HTTP_401_UNAUTHORIZED ''Invalid username or password''), w')"
  using assms by (simp add: authenticate_user_def)

lemma authenticate_user_wrong_password:
  assumes "get_user sq manager username w =
             (Some [(''username'', n), (''hashed_password'', h)], w')"
      and "\<not> verify_password pwd_context password h"
  shows "authenticate_user pwd_context sq manager username password w =
           (Inl (HTTPException HTTP_401_UNAUTHORIZED ''Invalid username or password''), w')"
  using assms by (simp add: authenticate_user_def)

lemma login_failure:
  assumes "authenticate_user pwd_context sq manager username password w = (Inl e, w')"
  shows "login cfg pwd_context sq manager now username password w = (Inl e, w')"
  using assms by (simp add: login_def)

lemma get_user_users_sqlite:
  "get_user users_sqlite manager username tbl =
     (case find (\<lambda>r. row_username r = username) tbl of
        None \<Rightarrow> (None, tbl)
      | Some r \<Rightarrow>
          (Some [(''username'', PyStr username), (''hashed_password'', PyStr (snd (snd r)))], tbl))"
proof -
  have sel: "select users_sqlite manager select_user_sql (PyTuple [PyStr username]) tbl =
      Inr (map user_row (take 1 (filter (\<lambda>r. row_username r = username) tbl)), tbl)"
    by (simp add: select_def select_user_sql_kind private_execute_def users_sqlite_def
          users_execute_def fetchall_def Let_def)
  show ?thesis
  proof (cases "find (\<lambda>r. row_username r = username) tbl")
    case None
    then have "filter (\<lambda>r. row_username r = username) tbl = []"
      by (auto simp add: find_None_iff filter_empty_conv)
    with None sel show ?thesis by (simp add: get_user_def)
  next
    case (Some r)
    then obtain rest where f: "filter (\<lambda>r. row_username r = username) tbl = r # rest"
      and u: "row_username r = username"
      by (induction tbl) (auto split: if_splits)
    with Some sel show ?thesis
      by (simp add: get_user_def user_row_def row_username_def)
  qed
qed

text \<open>
  Claim C6. Take two login attempts, on any stores and with any settings: one for a
  username that \<open>get_user\<close> does not find, one for a username it finds with a
  password that does not verify. Both are answered with the same exception, status 401
  with "Invalid username or password", by \<open>authenticate_user\<close> and by the route.
\<close>

theorem login_failures_indistinguishable:
  assumes "get_user sq1 m1 u1 w1 = (None, w1')"
      and "get_user sq2 m2 u2 w2 = (Some [(''username'', n), (''hashed_password'', h)], w2')"
      and "\<not> verify_password ctx2 p2 h"
  shows "fst (login cfg1 ctx1 sq1 m1 now1 u1 p1 w1) = fst (login cfg2 ctx2 sq2 m2 now2 u2 p2 w2)
       \<and> fst (login cfg1 ctx1 sq1 m1 now1 u1 p1 w1) =
           Inl (HTTPException HTTP_401_UNAUTHORIZED ''Invalid username or password'')
       \<and> fst (authenticate_user ctx1 sq1 m1 u1 p1 w1) =
           fst (authenticate_user ctx2 sq2 m2 u2 p2 w2)"
proof -
  have a1: "authenticate_user ctx1 sq1 m1 u1 p1 w1 =
      (Inl (HTTPException HTTP_401_UNAUTHORIZED ''Invalid username or password''), w1')"
    using assms(1) by (rule authenticate_user_unknown)
  have a2: "authenticate_user ctx2 sq2 m2 u2 p2 w2 =
      (Inl (HTTPException HTTP_401_UNAUTHORIZED ''Invalid username or password''), w2')"
    using assms(2,3) by (rule authenticate_user_wrong_password)
  show ?thesis
    by (simp add: a1 a2 login_failure [OF a1] login_failure [OF a2])
qed

text \<open>The theorem of C6 at an unknown user and at a wrong password for \<open>alice\<close>.\<close>

theorem login_failures_indistinguishable_witness:
  "get_user users_sqlite example_manager ''bob'' [(1, ''alice'', ''s$p1'')] =
     (None, [(1, ''alice'', ''s$p1'')])
   \<and> get_user users_sqlite example_manager ''alice'' [(1, ''alice'', ''s$p1'')] =
     (Some [(''username'', PyStr ''alice''), (''hashed_password'', PyStr ''s$p1'')],
      [(1, ''alice'', ''s$p1'')])
   \<and> \<not> verify_password plain_context ''wrong'' (PyStr ''s$p1'')
   \<and> fst (login example_settings plain_context users_sqlite example_manager 0 ''bob'' ''p1''
            [(1, ''alice'', ''s$p1'')]) =
       fst (login example_settings plain_context users_sqlite example_manager 0 ''alice'' ''wrong''
            [(1, ''alice'', ''s$p1'')])
   \<and> fst (login example_settings plain_context users_sqlite example_manager 0 ''alice'' ''wrong''
            [(1, ''alice'', ''s$p1'')]) =
       Inl (HTTPException 401 ''Invalid username or password'')"
proof -
  have g1: "get_user users_sqlite example_manager ''bob'' [(1, ''alice'', ''s$p1'')] =
     (None, [(1, ''alice'', ''s$p1'')])"
    by (simp add: get_user_users_sqlite row_username_def)
  have g2: "get_user users_sqlite example_manager ''alice'' [(1, ''alice'', ''s$p1'')] =
     (Some [(''username'', PyStr ''alice''), (''hashed_password'', PyStr ''s$p1'')],
      [(1, ''alice'', ''s$p1'')])"
    by (simp add: get_user_users_sqlite row_username_def)
  have v: "\<not> verify_password plain_context ''wrong'' (PyStr ''s$p1'')"
    by (simp add: verify_password_def plain_context_def)
  from login_failures_indistinguishable [OF g1 g2 v, of example_settings plain_context 0 "''p1''"
         example_settings 0] g1 g2 v
  show ?thesis by (elim conjE) (simp only: simp_thms)
qed

lemma login_when_select_fails:
  assumes "execute sq (db_path manager) select_user_sql (PyTuple [PyStr username]) w = Inl e"
  shows "login cfg pwd_context sq manager now username password w =
           (Inl (HTTPException HTTP_401_UNAUTHORIZED ''Invalid username or password''), w)"
  by (rule login_failure, rule authenticate_user_unknown, rule get_user_select_fails, rule assms)

text \<open>
  Claim C2 does not hold on the code. With the store locked, the login of a stored user
  with the right password is answered with status 401 and "Invalid username or password":
  \<open>get_user\<close> turns the error of the database layer into \<open>None\<close>, and the handler
  of \<open>authenticate_user\<close> that answers 500 never sees it. The same login on the
  working store returns a token pair.
\<close>

theorem login_storage_failure_is_401:
  "fst (login example_settings plain_context locked_sqlite example_manager 0 ''alice'' ''p1''
          [(1, ''alice'', ''s$p1'')]) =
     Inl (HTTPException 401 ''Invalid username or password'')
   \<and> fst (login example_settings plain_context users_sqlite example_manager 0 ''alice'' ''p1''
          [(1, ''alice'', ''s$p1'')]) =
     token_pair example_settings 0 [(''username'', PyStr ''alice'')]
   \<and> (\<exists>resp. token_pair example_settings 0 [(''username'', PyStr ''alice'')] = Inr resp)"
proof -
  have "execute locked_sqlite (db_path example_manager) select_user_sql
          (PyTuple [PyStr ''alice'']) [(1, ''alice'', ''s$p1'')] =
        Inl (OperationalError ''database is locked'')"
    by (simp add: locked_sqlite_def)
  then have locked: "login example_settings plain_context locked_sqlite example_manager 0
      ''alice'' ''p1'' [(1, ''alice'', ''s$p1'')] =
      (Inl (HTTPException 401 ''Invalid username or password''), [(1, ''alice'', ''s$p1'')])"
    by (rule login_when_select_fails)
  have ok: "login example_settings plain_context users_sqlite example_manager 0
      ''alice'' ''p1'' [(1, ''alice'', ''s$p1'')] =
      (token_pair example_settings 0 [(''username'', PyStr ''alice'')], [(1, ''alice'', ''s$p1'')])"
    by (simp add: login_def authenticate_user_def get_user_users_sqlite row_username_def
          verify_password_def plain_context_def)
  show ?thesis
    by (simp add: locked ok) (simp add: token_pair_def)
qed

lemma create_user_same_password:
  assumes "get_user sq manager username w =
             (Some [(''username'', n), (''hashed_password'', h)], w')"
      and "pwd_verify pwd_context password h = Some True"
  shows "create_user pwd_context sq manager salt username password w = Some (None, w')"
  using assms
  by (simp add: create_user_def resolve_username_def split: option.splits)

text \<open>
  Claim C3. When the record the lookup finds for the username (the first with that name)
  holds a hash that verifies against the password, \<open>create_user\<close> returns \<open>None\<close>
  and leaves the table as it is, and \<open>register\<close> answers with status 400 and
  "User already exists".
\<close>

theorem duplicate_registration:
  assumes "find (\<lambda>r. row_username r = username) tbl = Some r"
      and "pwd_verify pwd_context password (PyStr (snd (snd r))) = Some True"
  shows "create_user pwd_context users_sqlite manager salt username password tbl =
           Some (None, tbl)
       \<and> register cfg pwd_context users_sqlite manager now salt username password tbl =
           Some (Inl (HTTPException HTTP_400_BAD_REQUEST ''User already exists''), tbl)"
proof -
  have g: "get_user users_sqlite manager username tbl =
      (Some [(''username'', PyStr username), (''hashed_password'', PyStr (snd (snd r)))], tbl)"
    using assms(1) by (simp add: get_user_users_sqlite)
  have c: "create_user pwd_context users_sqlite manager salt username password tbl =
      Some (None, tbl)"
    using g assms(2) by (rule create_user_same_password)
  then show ?thesis by (simp add: register_def)
qed

text \<open>The theorem of C3 at a second registration of \<open>alice\<close> with her password.\<close>

theorem duplicate_registration_witness:
  "find (\<lambda>r. row_username r = ''alice'') [(1, ''alice'', ''s$p1'')] = Some (1, ''alice'', ''s$p1'')
   \<and> pwd_verify plain_context ''p1'' (PyStr (snd (snd (1::int, ''alice'', ''s$p1'')))) = Some True
   \<and> create_user plain_context users_sqlite example_manager ''t'' ''alice'' ''p1''
         [(1, ''alice'', ''s$p1'')] = Some (None, [(1, ''alice'', ''s$p1'')])
   \<and> register example_settings plain_context users_sqlite example_manager 0 ''t'' ''alice'' ''p1''
         [(1, ''alice'', ''s$p1'')] =
       Some (Inl (HTTPException 400 ''User already exists''), [(1, ''alice'', ''s$p1'')])"
proof -
  have f: "find (\<lambda>r. row_username r = ''alice'') [(1, ''alice'', ''s$p1'')] =
             Some (1::int, ''alice'', ''s$p1'')"
    by (simp add: row_username_def)
  have v: "pwd_verify plain_context ''p1'' (PyStr (snd (snd (1::int, ''alice'', ''s$p1'')))) =
             Some True"
    by (simp add: plain_context_def)
  from duplicate_registration [OF f v, of example_manager "''t''" example_settings 0] f v
  show ?thesis by simp
qed

lemma str_nat_nonempty: "str_nat n \<noteq> []"
  by (subst str_nat.simps) simp

lemma digits_inj: "i < 10 \<Longrightarrow> j < 10 \<Longrightarrow> digits ! i = digits ! j \<Longrightarrow> i = j"
proof -
  assume a: "i < 10" "j < 10" "digits ! i = digits ! j"
  have "distinct digits" by simp
  moreover have "i < length digits" "j < length digits" using a by simp_all
  ultimately show "i = j" using a(3) by (simp only: nth_eq_iff_index_eq)
qed

lemma str_nat_inj: "str_nat m = str_nat n \<Longrightarrow> m = n"
proof (induction m arbitrary: n rule: str_nat.induct)
  case (1 m)
  show ?case
  proof (cases "m < 10")
    case True
    then have sm: "str_nat m = [digits ! m]" by (subst str_nat.simps) simp
    show ?thesis
    proof (cases "n < 10")
      case True
      then have "str_nat n = [digits ! n]" by (subst str_nat.simps) simp
      with sm "1.prems" have "digits ! m = digits ! n" by simp
      with \<open>m < 10\<close> \<open>n < 10\<close> show ?thesis by (rule digits_inj)
    next
      case False
      then have "str_nat n = str_nat (n div 10) @ [digits ! (n mod 10)]"
        by (subst str_nat.simps) simp
      with sm "1.prems" have "str_nat (n div 10) = []" by simp
      then show ?thesis by (simp add: str_nat_nonempty)
    qed
  next
    case False
    then have sm: "str_nat m = str_nat (m div 10) @ [digits ! (m mod 10)]"
      by (subst str_nat.simps) simp
    show ?thesis
    proof (cases "n < 10")
      case True
      then have "str_nat n = [digits ! n]" by (subst str_nat.simps) simp
      with sm "1.prems" have "str_nat (m div 10) = []" by simp
      then show ?thesis by (simp add: str_nat_nonempty)
    next
      case nge: False
      then have "str_nat n = str_nat (n div 10) @ [digits ! (n mod 10)]"
        by (subst str_nat.simps) simp
      with sm "1.prems" have eq: "str_nat (m div 10) = str_nat (n div 10)"
        and d: "digits ! (m mod 10) = digits ! (n mod 10)" by simp_all
      from "1.IH" [OF False eq] have q: "m div 10 = n div 10" .
      have "m mod 10 < 10" "n mod 10 < 10" by simp_all
      then have r: "m mod 10 = n mod 10" using d by (rule digits_inj)
      from q r show ?thesis by (metis div_mult_mod_eq)
    qed
  qed
qed

lemma free_suffix_exists: "\<exists>k. 1 \<le> k \<and> base @ str_nat k \<notin> usernames tbl"
proof -
  have "inj (\<lambda>k. base @ str_nat k)"
    by (rule injI) (simp add: str_nat_inj)
  moreover have "finite (usernames tbl)" by (simp add: usernames_def)
  ultimately have fin: "finite ((\<lambda>k. base @ str_nat k) -` usernames tbl)"
    by (rule finite_vimageI [rotated])
  let ?A = "insert 0 ((\<lambda>k. base @ str_nat k) -` usernames tbl)"
  have "finite ?A" using fin by simp
  then have "Suc (Max ?A) \<notin> ?A"
    by (metis Max_ge Suc_n_not_le_n)
  then show ?thesis by (intro exI [of _ "Suc (Max ?A)"]) simp
qed

lemma find_username_None:
  "name \<notin> usernames tbl \<Longrightarrow> find (\<lambda>r. row_username r = name) tbl = None"
  by (auto simp add: usernames_def find_None_iff)

lemma find_username_Some:
  assumes "name \<in> usernames tbl"
  shows "\<exists>r. find (\<lambda>r. row_username r = name) tbl = Some r"
proof (cases "find (\<lambda>r. row_username r = name) tbl")
  case None
  then have "\<forall>x \<in> set tbl. row_username x \<noteq> name"
    by (auto simp add: find_None_iff)
  with assms show ?thesis by (auto simp add: usernames_def)
next
  case (Some r)
  then show ?thesis by blast
qed

lemma find_append_Some: "find P xs = Some r \<Longrightarrow> find P (xs @ ys) = Some r"
  by (induction xs) (auto split: if_splits)

lemma probe_suffix_users_sqlite:
  assumes "\<forall>j. s \<le> j \<and> j < k \<longrightarrow> base @ str_nat j \<in> usernames tbl"
      and "base @ str_nat k \<notin> usernames tbl"
      and "s \<le> k"
  shows "probe_suffix users_sqlite manager base s tbl = Some (k, tbl)"
  using assms
proof (induction "k - s" arbitrary: s)
  case 0
  then have "s = k" by simp
  with "0.prems"(2) show ?case
    by (subst probe_suffix.simps) (simp add: get_user_users_sqlite find_username_None)
next
  case (Suc d)
  then have lt: "s < k" by simp
  with Suc.prems(1) have "base @ str_nat s \<in> usernames tbl" by simp
  then obtain r where r: "find (\<lambda>r. row_username r = base @ str_nat s) tbl = Some r"
    using find_username_Some by blast
  have "probe_suffix users_sqlite manager base (s + 1) tbl = Some (k, tbl)"
  proof (rule Suc.hyps(1))
    show "d = k - (s + 1)" using Suc.hyps(2) by simp
    show "\<forall>j. s + 1 \<le> j \<and> j < k \<longrightarrow> base @ str_nat j \<in> usernames tbl"
      using Suc.prems(1) by simp
    show "base @ str_nat k \<notin> usernames tbl" by (rule Suc.prems(2))
    show "s + 1 \<le> k" using lt by simp
  qed
  then show ?case
    by (subst probe_suffix.simps) (simp add: get_user_users_sqlite r)
qed

lemma insert_db_users_sqlite:
  "insert_db users_sqlite manager insert_user_sql (PyTuple [PyStr u, PyStr h]) tbl =
     Inr (next_rowid tbl, tbl @ [(next_rowid tbl, u, h)])"
  by (simp add: insert_db_def insert_user_sql_kind private_execute_def users_sqlite_def
        users_execute_def Let_def)

text \<open>
  Claim C4. When the record the lookup finds for the username holds a hash that does not
  verify against the password, the loop of \<open>create_user\<close> stops at the least
  \<open>k \<ge> 1\<close> whose name \<open>username @ str k\<close> is not in the table: every smaller
  suffix is taken, so they are probed in increasing order. \<open>create_user\<close> returns the
  new id and that name, and the table is the old one, row for row, followed by the new
  record with the hash of the new password; the lookup of the original username still
  finds the original record.
\<close>

theorem suffixed_registration:
  assumes "find (\<lambda>r. row_username r = username) tbl = Some r"
      and "pwd_verify pwd_context password (PyStr (snd (snd r))) = Some False"
      and "pwd_hash pwd_context salt password = Some hashed"
  shows "\<exists>k. 1 \<le> k
           \<and> (\<forall>j. 1 \<le> j \<and> j < k \<longrightarrow> username @ str_nat j \<in> usernames tbl)
           \<and> username @ str_nat k \<notin> usernames tbl
           \<and> probe_suffix users_sqlite manager username 1 tbl = Some (k, tbl)
           \<and> create_user pwd_context users_sqlite manager salt username password tbl =
               Some (Some [(''id'', PyInt (next_rowid tbl)),
                           (''username'', PyStr (username @ str_nat k))],
                     tbl @ [(next_rowid tbl, username @ str_nat k, hashed)])
           \<and> find (\<lambda>r. row_username r = username)
                 (tbl @ [(next_rowid tbl, username @ str_nat k, hashed)]) = Some r"
proof -
  define P where "P k \<longleftrightarrow> 1 \<le> k \<and> username @ str_nat k \<notin> usernames tbl" for k
  have "\<exists>k. P k" unfolding P_def by (rule free_suffix_exists)
  then obtain k where k: "P k" and least: "\<forall>j. j < k \<longrightarrow> \<not> P j"
    by (metis exists_least_iff)
  from k have k1: "1 \<le> k" and free: "username @ str_nat k \<notin> usernames tbl"
    by (simp_all add: P_def)
  from least have used: "\<forall>j. 1 \<le> j \<and> j < k \<longrightarrow> username @ str_nat j \<in> usernames tbl"
    by (auto simp add: P_def)
  have probe: "probe_suffix users_sqlite manager username 1 tbl = Some (k, tbl)"
    using used free k1 by (rule probe_suffix_users_sqlite)
  have g: "get_user users_sqlite manager username tbl =
      (Some [(''username'', PyStr username), (''hashed_password'', PyStr (snd (snd r)))], tbl)"
    using assms(1) by (simp add: get_user_users_sqlite)
  have res: "resolve_username pwd_context users_sqlite manager username password
      (Some [(''username'', PyStr username), (''hashed_password'', PyStr (snd (snd r)))]) tbl =
      Some (Inr (username @ str_nat k), tbl)"
    using assms(2) probe by (simp add: resolve_username_def)
  have c: "create_user pwd_context users_sqlite manager salt username password tbl =
      Some (Some [(''id'', PyInt (next_rowid tbl)), (''username'', PyStr (username @ str_nat k))],
            tbl @ [(next_rowid tbl, username @ str_nat k, hashed)])"
    using g assms(3) res by (simp add: create_user_def insert_db_users_sqlite)
  have f: "find (\<lambda>r. row_username r = username)
      (tbl @ [(next_rowid tbl, username @ str_nat k, hashed)]) = Some r"
    using assms(1) by (rule find_append_Some)
  from k1 used free probe c f show ?thesis by blast
qed

text \<open>
  The theorem of C4 at a table that holds \<open>alice\<close> and \<open>alice1\<close>: the new record
  is \<open>alice2\<close>.
\<close>

theorem suffixed_registration_witness:
  "find (\<lambda>r. row_username r = ''alice'') [(1, ''alice'', ''s$p1''), (2, ''alice1'', ''s$p2'')] =
     Some (1, ''alice'', ''s$p1'')
   \<and> pwd_verify plain_context ''p3'' (PyStr (snd (snd (1::int, ''alice'', ''s$p1'')))) = Some False
   \<and> pwd_hash plain_context ''t'' ''p3'' = Some ''t$p3''
   \<and> create_user plain_context users_sqlite example_manager ''t'' ''alice'' ''p3''
        [(1, ''alice'', ''s$p1''), (2, ''alice1'', ''s$p2'')] =
      Some (Some [(''id'', PyInt 3), (''username'', PyStr ''alice2'')],
            [(1, ''alice'', ''s$p1''), (2, ''alice1'', ''s$p2''), (3, ''alice2'', ''t$p3'')])"
proof -
  let ?tbl = "[(1::int, ''alice'', ''s$p1''), (2, ''alice1'', ''s$p2'')]"
  have f: "find (\<lambda>r. row_username r = ''alice'') ?tbl = Some (1, ''alice'', ''s$p1'')"
    by (simp add: row_username_def)
  have v: "pwd_verify plain_context ''p3'' (PyStr (snd (snd (1::int, ''alice'', ''s$p1'')))) =
             Some False"
    by (simp add: plain_context_def)
  have h: "pwd_hash plain_context ''t'' ''p3'' = Some ''t$p3''"
    by (simp add: plain_context_def)
  have u: "usernames ?tbl = {''alice'', ''alice1''}"
    by (auto simp add: usernames_def row_username_def)
  have s1: "str_nat 1 = ''1''" and s2: "str_nat 2 = ''2''"
    by (simp_all add: str_nat.simps)
  have n: "next_rowid ?tbl = 3" by (simp add: next_rowid_def)
  from suffixed_registration [OF f v h, of example_manager]
  obtain k where k1: "1 \<le> k"
    and used: "\<forall>j. 1 \<le> j \<and> j < k \<longrightarrow> ''alice'' @ str_nat j \<in> usernames ?tbl"
    and free: "''alice'' @ str_nat k \<notin> usernames ?tbl"
    and c: "create_user plain_context users_sqlite example_manager ''t'' ''alice'' ''p3'' ?tbl =
              Some (Some [(''id'', PyInt (next_rowid ?tbl)),
                          (''username'', PyStr (''alice'' @ str_nat k))],
                    ?tbl @ [(next_rowid ?tbl, ''alice'' @ str_nat k, ''t$p3'')])"
    by blast
  have "k \<noteq> 1" using free u s1 by auto
  moreover have "\<not> 2 < k"
  proof
    assume "2 < k"
    with used have "''alice'' @ str_nat 2 \<in> usernames ?tbl" by simp
    with u s2 show False by simp
  qed
  ultimately have "k = 2" using k1 by simp
  with c n s2 f v h show ?thesis by simp
qed

end
